theory Spec2Isabelle
  imports Main
begin

section \<open>Python values\<close>

text \<open>
  The proxies of \<^verbatim>\<open>confluent_iam_v2.py\<close> store whatever the transport's \<^verbatim>\<open>.json()\<close>
  hands back, so a field holds a Python value, not a string: \<^verbatim>\<open>None\<close>, a bool, an int, a
  str, a list or a dict with string keys (what \<^verbatim>\<open>json.loads\<close> builds). A dict is an
  association list in insertion order; its keys are distinct. JSON numbers are integers
  here (floats are left out). A str is a list of 8-bit characters, so the strings of the
  model are the ASCII strings: Python's case mapping of the other characters needs the
  Unicode tables, which these characters cannot hold. Wherever a statement rests on
  \<^verbatim>\<open>str.title()\<close>, it says \<open>is_ascii\<close> of the string that is title-cased.
\<close>

datatype pyval =
    PNone
  | PBool bool
  | PInt int
  | PStr string
  | PList "pyval list"
  | PDict "(string \<times> pyval) list"

datatype pyerr =
    AttributeError string
  | KeyError string
  | TypeError string
  | TransportError string

text \<open>Truth value testing, as \<^verbatim>\<open>if x:\<close> and \<^verbatim>\<open>not x\<close> do it.\<close>

fun truthy :: "pyval \<Rightarrow> bool" where
  "truthy PNone = False"
| "truthy (PBool b) = b"
| "truthy (PInt n) = (n \<noteq> 0)"
| "truthy (PStr s) = (s \<noteq> [])"
| "truthy (PList xs) = (xs \<noteq> [])"
| "truthy (PDict kvs) = (kvs \<noteq> [])"

subsection \<open>Formatting: \<^verbatim>\<open>str\<close> and \<^verbatim>\<open>repr\<close>, as an f-string applies them\<close>

definition digit_char :: "nat \<Rightarrow> char" where
  "digit_char n = char_of (48 + n)"

function digits :: "nat \<Rightarrow> string" where
  "digits n = (if n < 10 then [digit_char n] else digits (n div 10) @ [digit_char (n mod 10)])"
  by pat_completeness auto
termination
  by (relation "measure (\<lambda>n. n)") auto

declare digits.simps [simp del]

definition int_str :: "int \<Rightarrow> string" where
  "int_str i = (if i < 0 then CHR ''-'' # digits (nat (- i)) else digits (nat i))"

definition hex_digit :: "nat \<Rightarrow> char" where
  "hex_digit n = (if n < 10 then char_of (48 + n) else char_of (87 + n))"

definition backslash :: char where
  "backslash = CHR 0x5C"

text \<open>One character of \<^verbatim>\<open>repr(s)\<close>, inside the quote \<open>q\<close>.\<close>

definition repr_char :: "char \<Rightarrow> char \<Rightarrow> string" where
  "repr_char q c =
     (let n = (of_char c :: nat) in
      if c = q \<or> c = backslash then [backslash, c]
      else if n = 9 then [backslash, CHR ''t'']
      else if n = 10 then [backslash, CHR ''n'']
      else if n = 13 then [backslash, CHR ''r'']
      else if n < 32 \<or> n = 127 then [backslash, CHR ''x'', hex_digit (n div 16), hex_digit (n mod 16)]
      else [c])"

text \<open>
  \<^verbatim>\<open>repr\<close> of a str: single quotes, unless the string has a single quote and no double
  quote.
\<close>

definition repr_str :: "string \<Rightarrow> string" where
  "repr_str s =
     (let q = (if CHR 0x27 \<in> set s \<and> CHR 0x22 \<notin> set s then CHR 0x22 else CHR 0x27)
      in q # concat (map (repr_char q) s) @ [q])"

fun join :: "string \<Rightarrow> string list \<Rightarrow> string" where
  "join sep [] = []"
| "join sep [x] = x"
| "join sep (x # y # ys) = x @ sep @ join sep (y # ys)"

fun py_repr :: "pyval \<Rightarrow> string" where
  "py_repr PNone = ''None''"
| "py_repr (PBool b) = (if b then ''True'' else ''False'')"
| "py_repr (PInt n) = int_str n"
| "py_repr (PStr s) = repr_str s"
| "py_repr (PList xs) = ''['' @ join '', '' (map py_repr xs) @ '']''"
| "py_repr (PDict kvs) =
     ''{'' @ join '', '' (map (\<lambda>kv. repr_str (fst kv) @ '': '' @ py_repr (snd kv)) kvs) @ ''}''"

text \<open>\<^verbatim>\<open>f"{v}"\<close> is \<^verbatim>\<open>str(v)\<close>: the string itself, and \<^verbatim>\<open>repr\<close> for the rest.\<close>

fun py_str :: "pyval \<Rightarrow> string" where
  "py_str (PStr s) = s"
| "py_str v = py_repr v"

subsection \<open>Equality, subscription, iteration\<close>

text \<open>
  \<^verbatim>\<open>a == b\<close>: a bool compares as the int 0 or 1, lists compare element by element, dicts
  by their keys and values whatever the order, and values of different kinds differ.
\<close>

fun py_eq :: "pyval \<Rightarrow> pyval \<Rightarrow> bool"
  and py_eq_list :: "pyval list \<Rightarrow> pyval list \<Rightarrow> bool"
  and py_eq_items :: "(string \<times> pyval) list \<Rightarrow> (string \<times> pyval) list \<Rightarrow> bool"
where
  "py_eq PNone b = (b = PNone)"
| "py_eq (PBool x) b =
     (case b of PBool y \<Rightarrow> x = y | PInt n \<Rightarrow> n = (if x then 1 else 0) | _ \<Rightarrow> False)"
| "py_eq (PInt m) b =
     (case b of PInt n \<Rightarrow> m = n | PBool y \<Rightarrow> m = (if y then 1 else 0) | _ \<Rightarrow> False)"
| "py_eq (PStr s) b = (b = PStr s)"
| "py_eq (PList xs) b = (case b of PList ys \<Rightarrow> py_eq_list xs ys | _ \<Rightarrow> False)"
| "py_eq (PDict kvs) b =
     (case b of PDict kws \<Rightarrow> length kvs = length kws \<and> py_eq_items kvs kws | _ \<Rightarrow> False)"
| "py_eq_list [] ys = (ys = [])"
| "py_eq_list (x # xs) ys =
     (case ys of [] \<Rightarrow> False | y # ys' \<Rightarrow> py_eq x y \<and> py_eq_list xs ys')"
| "py_eq_items [] kws = True"
| "py_eq_items (kv # kvs) kws =
     (case map_of kws (fst kv) of
        None \<Rightarrow> False
      | Some w \<Rightarrow> py_eq (snd kv) w \<and> py_eq_items kvs kws)"

text \<open>\<^verbatim>\<open>v[k]\<close> with a string key \<open>k\<close>.\<close>

fun subscript :: "pyval \<Rightarrow> string \<Rightarrow> pyerr + pyval" where
  "subscript (PDict kvs) k =
     (case map_of kvs k of None \<Rightarrow> Inl (KeyError k) | Some v \<Rightarrow> Inr v)"
| "subscript (PList xs) k = Inl (TypeError ''list indices must be integers or slices, not str'')"
| "subscript (PStr s) k = Inl (TypeError ''string indices must be integers'')"
| "subscript v k = Inl (TypeError ''object is not subscriptable'')"

text \<open>The elements a \<^verbatim>\<open>for\<close> loop draws from a value.\<close>

fun py_iter :: "pyval \<Rightarrow> pyerr + pyval list" where
  "py_iter (PList xs) = Inr xs"
| "py_iter (PDict kvs) = Inr (map (\<lambda>kv. PStr (fst kv)) kvs)"
| "py_iter (PStr s) = Inr (map (\<lambda>c. PStr [c]) s)"
| "py_iter v = Inl (TypeError ''object is not iterable'')"

subsection \<open>The string methods the module calls\<close>

definition is_upper :: "char \<Rightarrow> bool" where
  "is_upper c = (let n = (of_char c :: nat) in 65 \<le> n \<and> n \<le> 90)"

definition is_lower :: "char \<Rightarrow> bool" where
  "is_lower c = (let n = (of_char c :: nat) in 97 \<le> n \<and> n \<le> 122)"

definition is_cased :: "char \<Rightarrow> bool" where
  "is_cased c = (is_upper c \<or> is_lower c)"

definition to_upper :: "char \<Rightarrow> char" where
  "to_upper c = (if is_lower c then char_of ((of_char c :: nat) - 32) else c)"

definition to_lower :: "char \<Rightarrow> char" where
  "to_lower c = (if is_upper c then char_of ((of_char c :: nat) + 32) else c)"

text \<open>
  \<^verbatim>\<open>s.title()\<close>: a cased character is lowered when the character before it is cased, and
  raised otherwise; \<open>prev\<close> says whether the character before is cased. On an ASCII string
  this is what Python computes: the cased characters are the letters, raising a letter
  gives its capital and lowering it its small letter. It is not Python's \<^verbatim>\<open>title\<close> on a
  character above 127, which may be a letter with a capital of its own, so the statements
  about it are for \<open>is_ascii\<close> strings.
\<close>

fun title_from :: "bool \<Rightarrow> string \<Rightarrow> string" where
  "title_from prev [] = []"
| "title_from prev (c # cs) =
     (if prev then to_lower c else to_upper c) # title_from (is_cased c) cs"

definition title :: "string \<Rightarrow> string" where
  "title s = title_from False s"


text \<open>\<^verbatim>\<open>s.replace("::", " ")\<close>: the occurrences from the left, without overlap.\<close>

fun replace_colons :: "string \<Rightarrow> string" where
  "replace_colons (a # b # cs) =
     (if a = CHR '':'' \<and> b = CHR '':'' then CHR '' '' # replace_colons cs
      else a # replace_colons (b # cs))"
| "replace_colons cs = cs"

text \<open>The two methods on a value: only a str has them.\<close>

fun py_title :: "pyval \<Rightarrow> pyerr + pyval" where
  "py_title (PStr s) = Inr (PStr (title s))"
| "py_title v = Inl (AttributeError ''title'')"

fun py_replace_colons :: "pyval \<Rightarrow> pyerr + pyval" where
  "py_replace_colons (PStr s) = Inr (PStr (replace_colons s))"
| "py_replace_colons v = Inl (AttributeError ''replace'')"

text \<open>An exception ends the evaluation of an expression.\<close>

definition on_value :: "pyerr + 'a \<Rightarrow> ('a \<Rightarrow> pyerr + 'b) \<Rightarrow> pyerr + 'b" where
  "on_value r f = (case r of Inl e \<Rightarrow> Inl e | Inr v \<Rightarrow> f v)"

section \<open>The transport\<close>

text \<open>
  \<^verbatim>\<open>ConfluentClient\<close> lives in \<^verbatim>\<open>client_factory\<close>, outside this module, so it is a
  parameter: its \<^verbatim>\<open>api_url\<close>, and what it answers to a request, an exception or a
  response whose \<^verbatim>\<open>.json()\<close> raises or gives a value. Every method of the module sends
  at most one request, so the answer is a function of the request. Each run of a method
  records the requests it sent.
\<close>

datatype request =
    GET pyval
  | POST pyval pyval
  | PATCH pyval pyval
  | DELETE pyval

datatype response = Response "pyerr + pyval"

fun json :: "response \<Rightarrow> pyerr + pyval" where
  "json (Response r) = r"

record client =
  api_url :: string
  transport :: "request \<Rightarrow> pyerr + response"

text \<open>
  What a method call leaves behind: the value returned or the exception raised, the
  object as the call left it (an exception keeps the assignments made before it), and
  the requests sent, in order.
\<close>

record ('r, 'o) run =
  outcome :: "pyerr + 'r"
  self_after :: 'o
  requests :: "request list"

section \<open>\<^verbatim>\<open>IamV2Object\<close>\<close>

definition api_v2_path :: string where
  "api_v2_path = ''/iam/v2''"

definition api_keys_path :: string where
  "api_keys_path = api_v2_path @ ''/api-keys''"

definition services_accounts_path :: string where
  "services_accounts_path = api_v2_path @ ''/service-accounts''"

record IamV2Object =
  priv_client :: client
  priv_id :: pyval
  priv_name :: pyval
  priv_description :: pyval
  priv_href :: pyval
  api_path :: pyval

text \<open>
  \<^verbatim>\<open>__init__\<close> assigns the attributes of the instance it is given, in the order of the
  source.
\<close>

definition IamV2Object_init ::
  "client \<Rightarrow> pyval \<Rightarrow> pyval \<Rightarrow> 'a IamV2Object_scheme \<Rightarrow> 'a IamV2Object_scheme" where
  "IamV2Object_init client_factory display_name description self =
     (let self = self\<lparr>priv_client := client_factory\<rparr>;
          self = self\<lparr>priv_id := PNone\<rparr>;
          self = self\<lparr>priv_name := display_name\<rparr>;
          self = self\<lparr>priv_description := description\<rparr>;
          self = self\<lparr>priv_href := PNone\<rparr>;
          self = self\<lparr>api_path := PNone\<rparr>
      in self)"

definition obj_id :: "'a IamV2Object_scheme \<Rightarrow> pyval" where
  "obj_id self = priv_id self"

definition set_obj_id :: "pyval \<Rightarrow> 'a IamV2Object_scheme \<Rightarrow> 'a IamV2Object_scheme" where
  "set_obj_id id_value self = self\<lparr>priv_id := id_value\<rparr>"

definition href :: "'a IamV2Object_scheme \<Rightarrow> pyval" where
  "href self =
     (if truthy (priv_href self) then priv_href self
      else PStr (api_url (priv_client self) @ py_str (api_path self) @ ''/''
                 @ py_str (obj_id self)))"

definition set_href :: "pyval \<Rightarrow> 'a IamV2Object_scheme \<Rightarrow> 'a IamV2Object_scheme" where
  "set_href url self = self\<lparr>priv_href := url\<rparr>"

definition IamV2Object_list ::
  "'a IamV2Object_scheme \<Rightarrow> (response option, 'a IamV2Object_scheme) run" where
  "IamV2Object_list self =
     (if truthy (api_path self) then
        (let rq = GET (PStr (api_url (priv_client self) @ py_str (api_path self)))
         in \<lparr>outcome = map_sum id Some (transport (priv_client self) rq),
             self_after = self, requests = [rq]\<rparr>)
      else \<lparr>outcome = Inr None, self_after = self, requests = []\<rparr>)"

definition IamV2Object_read ::
  "'a IamV2Object_scheme \<Rightarrow> (response, 'a IamV2Object_scheme) run" where
  "IamV2Object_read self =
     (let rq = GET (href self)
      in \<lparr>outcome = transport (priv_client self) rq, self_after = self, requests = [rq]\<rparr>)"

definition IamV2Object_update ::
  "pyval \<Rightarrow> 'a IamV2Object_scheme \<Rightarrow> (response, 'a IamV2Object_scheme) run" where
  "IamV2Object_update description self =
     (let rq = PATCH (href self) (PDict [(''description'', description)])
      in \<lparr>outcome = transport (priv_client self) rq, self_after = self, requests = [rq]\<rparr>)"

definition IamV2Object_delete ::
  "'a IamV2Object_scheme \<Rightarrow> (response, 'a IamV2Object_scheme) run" where
  "IamV2Object_delete self =
     (let rq = DELETE (href self)
      in \<lparr>outcome = transport (priv_client self) rq, self_after = self, requests = [rq]\<rparr>)"

section \<open>\<^verbatim>\<open>ApiKey\<close>\<close>

record ApiKey = IamV2Object +
  priv_resource_id :: pyval
  priv_owner_id :: pyval
  priv_secret :: pyval

definition ApiKey_init ::
  "client \<Rightarrow> pyval \<Rightarrow> pyval \<Rightarrow> pyval \<Rightarrow> pyval \<Rightarrow> pyval \<Rightarrow> ApiKey \<Rightarrow> ApiKey" where
  "ApiKey_init client_factory obj_id' display_name description owner_id resource_id self =
     (let self = IamV2Object_init client_factory display_name description self;
          self = self\<lparr>priv_id := obj_id'\<rparr>;
          self = self\<lparr>priv_resource_id := resource_id\<rparr>;
          self = self\<lparr>priv_owner_id := owner_id\<rparr>;
          self = self\<lparr>priv_href := PNone\<rparr>;
          self = self\<lparr>api_path := PStr api_keys_path\<rparr>;
          self = self\<lparr>priv_secret := PNone\<rparr>
      in self)"

text \<open>
  \<^verbatim>\<open>ApiKey(...)\<close>: \<^verbatim>\<open>__init__\<close> on a new instance. A new instance has no attribute yet;
  \<^verbatim>\<open>__init__\<close> assigns every one of them without reading any, so what the record holds
  before does not matter (lemma \<open>ApiKey_init_any_instance\<close> below).
\<close>

definition ApiKey_new ::
  "client \<Rightarrow> pyval \<Rightarrow> pyval \<Rightarrow> pyval \<Rightarrow> pyval \<Rightarrow> pyval \<Rightarrow> ApiKey" where
  "ApiKey_new client_factory obj_id' display_name description owner_id resource_id =
     ApiKey_init client_factory obj_id' display_name description owner_id resource_id
       \<lparr>priv_client = client_factory, priv_id = PNone, priv_name = PNone,
        priv_description = PNone, priv_href = PNone, api_path = PNone,
        priv_resource_id = PNone, priv_owner_id = PNone, priv_secret = PNone\<rparr>"

definition owner_id :: "ApiKey \<Rightarrow> pyval" where
  "owner_id self = priv_owner_id self"

definition resource_id :: "ApiKey \<Rightarrow> pyval" where
  "resource_id self = priv_resource_id self"

text \<open>
  Lines 210 to 216 of \<^verbatim>\<open>ApiKey.create\<close>: the assignments from the reply, one after the
  other; a missing key raises and keeps the assignments already made.
\<close>

definition ApiKey_create_adopt :: "pyval \<Rightarrow> ApiKey \<Rightarrow> pyerr option \<times> ApiKey" where
  "ApiKey_create_adopt reply_data self =
     (case subscript reply_data ''spec'' of
        Inl e \<Rightarrow> (Some e, self)
      | Inr spec \<Rightarrow>
     (case subscript reply_data ''id'' of
        Inl e \<Rightarrow> (Some e, self)
      | Inr i \<Rightarrow>
     (let self = set_obj_id i self in
      case on_value (subscript reply_data ''metadata'') (\<lambda>m. subscript m ''self'') of
        Inl e \<Rightarrow> (Some e, self)
      | Inr h \<Rightarrow>
     (let self = self\<lparr>priv_href := h\<rparr> in
      case on_value (subscript spec ''owner'') (\<lambda>m. subscript m ''id'') of
        Inl e \<Rightarrow> (Some e, self)
      | Inr ow \<Rightarrow>
     (let self = self\<lparr>priv_owner_id := ow\<rparr> in
      case on_value (subscript spec ''resource'') (\<lambda>m. subscript m ''id'') of
        Inl e \<Rightarrow> (Some e, self)
      | Inr r \<Rightarrow>
     (let self = self\<lparr>priv_resource_id := r\<rparr> in
      case subscript spec ''secret'' of
        Inl e \<Rightarrow> (Some e, self)
      | Inr s \<Rightarrow> (None, self\<lparr>priv_secret := s\<rparr>)))))))"

text \<open>The payload of \<^verbatim>\<open>ApiKey.create\<close>, lines 198 to 205.\<close>

definition ApiKey_payload :: "pyval \<Rightarrow> pyval \<Rightarrow> pyval \<Rightarrow> pyval \<Rightarrow> pyval" where
  "ApiKey_payload owner_id' resource_id' display_name description =
     PDict [(''spec'',
       PDict [(''owner'', PDict [(''id'', owner_id')]),
              (''resource'', PDict [(''id'', resource_id')]),
              (''display_name'', display_name),
              (''description'', description)])]"

definition ApiKey_create ::
  "pyval \<Rightarrow> pyval \<Rightarrow> pyval \<Rightarrow> pyval \<Rightarrow> ApiKey \<Rightarrow> (response, ApiKey) run" where
  "ApiKey_create owner_id' resource_id' display_name description self =
     (let url = PStr (api_url (priv_client self) @ py_str (api_path self)) in
      if \<not> truthy owner_id' \<and> \<not> truthy (owner_id self) then
        \<lparr>outcome = Inl (AttributeError ''Owner ID must be specified''),
         self_after = self, requests = []\<rparr>
      else
     (let owner_id' = (if truthy owner_id' then owner_id' else priv_owner_id self) in
      if \<not> truthy resource_id' \<and> \<not> truthy (resource_id self) then
        \<lparr>outcome = Inl (AttributeError ''Resource ID must be specified''),
         self_after = self, requests = []\<rparr>
      else
     (let resource_id' = (if truthy resource_id' then resource_id' else resource_id self);
          display_name =
            (if \<not> truthy display_name \<and> \<not> truthy (priv_name self)
               then PStr (py_str owner_id' @ ''::'' @ py_str resource_id')
             else if \<not> truthy display_name \<and> truthy (priv_name self)
               then priv_name self
             else display_name)
      in
      case (if \<not> truthy description \<and> \<not> truthy (priv_description self)
              then on_value (py_replace_colons display_name) py_title
            else if \<not> truthy description \<and> truthy (priv_description self)
              then Inr (priv_description self)
            else Inr description) of
        Inl e \<Rightarrow> \<lparr>outcome = Inl e, self_after = self, requests = []\<rparr>
      | Inr description \<Rightarrow>
     (let rq = POST url (ApiKey_payload owner_id' resource_id' display_name description) in
      case transport (priv_client self) rq of
        Inl e \<Rightarrow> \<lparr>outcome = Inl e, self_after = self, requests = [rq]\<rparr>
      | Inr req \<Rightarrow>
     (case json req of
        Inl e \<Rightarrow> \<lparr>outcome = Inl e, self_after = self, requests = [rq]\<rparr>
      | Inr reply_data \<Rightarrow>
     (case ApiKey_create_adopt reply_data self of
        (Some e, self) \<Rightarrow> \<lparr>outcome = Inl e, self_after = self, requests = [rq]\<rparr>
      | (None, self) \<Rightarrow> \<lparr>outcome = Inr req, self_after = self, requests = [rq]\<rparr>))))))"

section \<open>\<^verbatim>\<open>ServiceAccount\<close>\<close>

record ServiceAccount = IamV2Object +
  priv_api_keys :: "ApiKey list"

definition ServiceAccount_init ::
  "client \<Rightarrow> pyval \<Rightarrow> pyval \<Rightarrow> pyval \<Rightarrow> ServiceAccount \<Rightarrow> ServiceAccount" where
  "ServiceAccount_init client_factory obj_id' display_name description self =
     (let self = self\<lparr>priv_id := obj_id'\<rparr>;
          self = self\<lparr>priv_href := PNone\<rparr>;
          self = IamV2Object_init client_factory display_name description self;
          self = self\<lparr>api_path := PStr services_accounts_path\<rparr>;
          self = self\<lparr>priv_api_keys := []\<rparr>
      in self)"

definition ServiceAccount_new :: "client \<Rightarrow> pyval \<Rightarrow> pyval \<Rightarrow> pyval \<Rightarrow> ServiceAccount" where
  "ServiceAccount_new client_factory obj_id' display_name description =
     ServiceAccount_init client_factory obj_id' display_name description
       \<lparr>priv_client = client_factory, priv_id = PNone, priv_name = PNone,
        priv_description = PNone, priv_href = PNone, api_path = PNone,
        priv_api_keys = []\<rparr>"


text \<open>
  The loop of \<^verbatim>\<open>import_api_keys\<close>: the arguments of \<^verbatim>\<open>ApiKey(...)\<close> are evaluated from
  the left, and an entry that lacks a key raises after the keys before it were appended.
\<close>

fun import_loop :: "pyval list \<Rightarrow> ServiceAccount \<Rightarrow> pyerr option \<times> ServiceAccount" where
  "import_loop [] self = (None, self)"
| "import_loop (api_key # rest) self =
     (case subscript api_key ''id'' of
        Inl e \<Rightarrow> (Some e, self)
      | Inr i \<Rightarrow>
     (case on_value (on_value (subscript api_key ''spec'') (\<lambda>s. subscript s ''resource''))
             (\<lambda>r. subscript r ''id'') of
        Inl e \<Rightarrow> (Some e, self)
      | Inr r \<Rightarrow>
     (let new_key = ApiKey_new (priv_client self) i PNone PNone (obj_id self) r
      in import_loop rest (self\<lparr>priv_api_keys := priv_api_keys self @ [new_key]\<rparr>))))"

definition ServiceAccount_import_api_keys ::
  "ServiceAccount \<Rightarrow> (pyval, ServiceAccount) run" where
  "ServiceAccount_import_api_keys self =
     (let url = PStr (api_url (priv_client self) @ api_keys_path @ ''?owner=''
                      @ py_str (obj_id self));
          rq = GET url in
      case on_value (on_value (on_value (transport (priv_client self) rq) json)
             (\<lambda>d. subscript d ''data'')) py_iter of
        Inl e \<Rightarrow> \<lparr>outcome = Inl e, self_after = self, requests = [rq]\<rparr>
      | Inr entries \<Rightarrow>
     (case import_loop entries self of
        (Some e, self) \<Rightarrow> \<lparr>outcome = Inl e, self_after = self, requests = [rq]\<rparr>
      | (None, self) \<Rightarrow> \<lparr>outcome = Inr PNone, self_after = self, requests = [rq]\<rparr>))"

text \<open>
  The four assignments that \<^verbatim>\<open>set_from_read\<close> makes from an entity, at lines 129 to 132
  and again at lines 137 to 140.
\<close>

definition adopt_account :: "pyval \<Rightarrow> ServiceAccount \<Rightarrow> pyerr option \<times> ServiceAccount" where
  "adopt_account data self =
     (case on_value (subscript data ''metadata'') (\<lambda>m. subscript m ''self'') of
        Inl e \<Rightarrow> (Some e, self)
      | Inr h \<Rightarrow>
     (let self = self\<lparr>priv_href := h\<rparr> in
      case subscript data ''id'' of
        Inl e \<Rightarrow> (Some e, self)
      | Inr i \<Rightarrow>
     (let self = set_obj_id i self in
      case subscript data ''description'' of
        Inl e \<Rightarrow> (Some e, self)
      | Inr d \<Rightarrow>
     (let self = self\<lparr>priv_description := d\<rparr> in
      case subscript data ''display_name'' of
        Inl e \<Rightarrow> (Some e, self)
      | Inr n \<Rightarrow> (None, self\<lparr>priv_name := n\<rparr>)))))"

text \<open>The loop of \<^verbatim>\<open>set_from_read\<close>, lines 135 to 140: it has no \<^verbatim>\<open>break\<close>.\<close>

fun scan_accounts ::
  "pyval \<Rightarrow> pyval list \<Rightarrow> ServiceAccount \<Rightarrow> pyerr option \<times> ServiceAccount" where
  "scan_accounts display_name [] self = (None, self)"
| "scan_accounts display_name (account # rest) self =
     (case subscript account ''display_name'' of
        Inl e \<Rightarrow> (Some e, self)
      | Inr n \<Rightarrow>
          if py_eq n display_name then
            (case adopt_account account self of
               (Some e, self) \<Rightarrow> (Some e, self)
             | (None, self) \<Rightarrow> scan_accounts display_name rest self)
          else scan_accounts display_name rest self)"

definition ServiceAccount_set_from_read ::
  "pyval \<Rightarrow> pyval \<Rightarrow> ServiceAccount \<Rightarrow> (pyval, ServiceAccount) run" where
  "ServiceAccount_set_from_read display_name account_id self =
     (let display_name = (if truthy display_name then display_name else priv_name self);
          account_id = (if truthy account_id then account_id else obj_id self) in
      if truthy account_id then
        (let self = set_obj_id account_id self;
             r = IamV2Object_read self in
         case on_value (outcome r) json of
           Inl e \<Rightarrow> \<lparr>outcome = Inl e, self_after = self, requests = requests r\<rparr>
         | Inr data \<Rightarrow>
        (case adopt_account data self of
           (Some e, self) \<Rightarrow> \<lparr>outcome = Inl e, self_after = self, requests = requests r\<rparr>
         | (None, self) \<Rightarrow> \<lparr>outcome = Inr PNone, self_after = self, requests = requests r\<rparr>))
      else if \<not> truthy account_id \<and> truthy display_name then
        (let r = IamV2Object_list self in
         case on_value (on_value (on_value (outcome r)
                  (\<lambda>resp. case resp of None \<Rightarrow> Inl (AttributeError ''json'')
                                    | Some x \<Rightarrow> json x))
                (\<lambda>d. subscript d ''data'')) py_iter of
           Inl e \<Rightarrow> \<lparr>outcome = Inl e, self_after = self, requests = requests r\<rparr>
         | Inr accounts \<Rightarrow>
        (case scan_accounts display_name accounts self of
           (Some e, self) \<Rightarrow> \<lparr>outcome = Inl e, self_after = self, requests = requests r\<rparr>
         | (None, self) \<Rightarrow> \<lparr>outcome = Inr PNone, self_after = self, requests = requests r\<rparr>))
      else \<lparr>outcome = Inr PNone, self_after = self, requests = []\<rparr>)"

section \<open>The precedence rule of the specification\<close>

text \<open>
  The specification words the fields of \<^verbatim>\<open>create\<close> as a chain: the explicit argument,
  else the stored instance field, else a computed default. This is that rule, written
  from the specification's words, to compare with what \<^verbatim>\<open>ApiKey.create\<close> computes. An
  argument or a field counts as given when Python takes it for true.
\<close>

definition resolve :: "pyval \<Rightarrow> pyval \<Rightarrow> pyval \<Rightarrow> pyval" where
  "resolve explicit stored computed =
     (if truthy explicit then explicit else if truthy stored then stored else computed)"

text \<open>
  The account entity of the remote API, as the specification documents its shape:
  \<^verbatim>\<open>{id, display_name, description, metadata: {self}}\<close>; and an entity whose display name
  is exactly the string \<open>dn\<close>.
\<close>

definition is_account_entity :: "pyval \<Rightarrow> bool" where
  "is_account_entity a =
     (\<not> isl (on_value (subscript a ''metadata'') (\<lambda>m. subscript m ''self'')) \<and>
      \<not> isl (subscript a ''id'') \<and>
      \<not> isl (subscript a ''description'') \<and>
      \<not> isl (subscript a ''display_name''))"

definition named :: "string \<Rightarrow> pyval \<Rightarrow> bool" where
  "named dn a = (subscript a ''display_name'' = Inr (PStr dn))"

section \<open>Example transports\<close>

text \<open>
  Entities in the shapes the remote API documents, and small transports that serve them;
  the closed instances of the theorems below run the methods against these.
\<close>

definition account_entity :: "string \<Rightarrow> string \<Rightarrow> string \<Rightarrow> string \<Rightarrow> pyval" where
  "account_entity i n d h =
     PDict [(''id'', PStr i), (''display_name'', PStr n), (''description'', PStr d),
            (''metadata'', PDict [(''self'', PStr h)])]"

definition key_entity :: "string \<Rightarrow> string \<Rightarrow> string \<Rightarrow> string \<Rightarrow> string \<Rightarrow> pyval" where
  "key_entity i h ow rs sec =
     PDict [(''id'', PStr i), (''metadata'', PDict [(''self'', PStr h)]),
            (''spec'', PDict [(''owner'', PDict [(''id'', PStr ow)]),
                              (''resource'', PDict [(''id'', PStr rs)]),
                              (''secret'', PStr sec)])]"

definition accounts_listing :: "pyval list" where
  "accounts_listing =
     [account_entity ''sa-1'' ''svc-a'' ''first'' ''https://x/sa-1'',
      account_entity ''sa-9'' ''other'' ''ninth'' ''https://x/sa-9'',
      account_entity ''sa-2'' ''svc-a'' ''second'' ''https://x/sa-2'']"

fun accounts_transport :: "request \<Rightarrow> pyerr + response" where
  "accounts_transport (POST u d) =
     Inr (Response (Inr (account_entity ''sa-1'' ''svc-a'' ''Svc-a'' ''https://x/sa-1'')))"
| "accounts_transport (GET u) =
     Inr (Response (Inr (PDict [(''data'', PList accounts_listing)])))"
| "accounts_transport rq = Inl (TransportError ''not served'')"

definition accounts_client :: client where
  "accounts_client = \<lparr>api_url = ''https://x'', transport = accounts_transport\<rparr>"

definition keys_listing :: "pyval list" where
  "keys_listing =
     [key_entity ''k-1'' ''https://x/k-1'' ''sa-1'' ''lkc-1'' ''-'',
      key_entity ''k-2'' ''https://x/k-2'' ''sa-1'' ''lkc-2'' ''-'']"

fun keys_transport :: "request \<Rightarrow> pyerr + response" where
  "keys_transport (POST u d) =
     Inr (Response (Inr
       (key_entity ''k-1'' ''https://x/k-1'' ''sa-0001'' ''lkc-0001'' ''s3cr3t'')))"
| "keys_transport (GET u) =
     Inr (Response (Inr (PDict [(''data'', PList keys_listing)])))"
| "keys_transport rq = Inl (TransportError ''not served'')"

definition keys_client :: client where
  "keys_client = \<lparr>api_url = ''https://x'', transport = keys_transport\<rparr>"

section \<open>Construction\<close>

lemma ApiKey_init_any_instance:
  "ApiKey_init c i n d ow r s1 = ApiKey_init c i n d ow r s2"
  by (simp add: ApiKey_init_def IamV2Object_init_def)

lemma ServiceAccount_init_any_instance:
  "ServiceAccount_init c i n d s1 = ServiceAccount_init c i n d s2"
  by (simp add: ServiceAccount_init_def IamV2Object_init_def)

lemma ApiKey_new_fields:
  "ApiKey_new c i n d ow r =
     \<lparr>priv_client = c, priv_id = i, priv_name = n, priv_description = d, priv_href = PNone,
      api_path = PStr api_keys_path, priv_resource_id = r, priv_owner_id = ow,
      priv_secret = PNone\<rparr>"
  by (simp add: ApiKey_new_def ApiKey_init_def IamV2Object_init_def)

lemma ServiceAccount_new_fields:
  "ServiceAccount_new c i n d =
     \<lparr>priv_client = c, priv_id = PNone, priv_name = n, priv_description = d,
      priv_href = PNone, api_path = PStr services_accounts_path, priv_api_keys = []\<rparr>"
  by (simp add: ServiceAccount_new_def ServiceAccount_init_def IamV2Object_init_def)

text \<open>
  C10. \<^verbatim>\<open>ServiceAccount.__init__\<close> assigns \<^verbatim>\<open>obj_id\<close> to \<^verbatim>\<open>_id\<close> and then runs the base
  initialiser, which sets \<^verbatim>\<open>_id\<close> to \<^verbatim>\<open>None\<close>: whatever \<^verbatim>\<open>obj_id\<close> is passed, the stored
  id is \<^verbatim>\<open>None\<close> right after construction.
\<close>

theorem ServiceAccount_init_discards_obj_id:
  "priv_id (ServiceAccount_init c i n d self) = PNone \<and>
   obj_id (ServiceAccount_new c i n d) = PNone"
  by (simp add: ServiceAccount_init_def ServiceAccount_new_def IamV2Object_init_def obj_id_def)

section \<open>The link of a proxy\<close>

text \<open>
  C3. \<^verbatim>\<open>href\<close> gives the link that was set, whatever the id, when one was set (a link
  that is not empty: the getter tests \<^verbatim>\<open>if self._href\<close>); with no link set and an id
  \<open>i\<close>, it is \<^verbatim>\<open>api_url + api_path + "/" + i\<close>. The getter assigns nothing: it is a function
  of the object, so calling it again gives the same value. The statement is about any
  \<^verbatim>\<open>IamV2Object\<close>, so about both \<^verbatim>\<open>ServiceAccount\<close> and \<^verbatim>\<open>ApiKey\<close>.
\<close>

theorem href_explicit_or_derived:
  "(truthy (priv_href self) \<longrightarrow> href self = priv_href self) \<and>
   (\<not> truthy (priv_href self) \<and> api_path self = PStr p \<and> obj_id self = PStr i \<longrightarrow>
      href self = PStr (api_url (priv_client self) @ p @ ''/'' @ i))"
  by (simp add: href_def)

theorem href_explicit_or_derived_witness:
  "href (set_href (PStr ''https://x/sa-1'')
          (set_obj_id (PStr ''sa-7'') (ServiceAccount_new accounts_client PNone PNone PNone)))
     = PStr ''https://x/sa-1'' \<and>
   href (ApiKey_new keys_client (PStr ''k-1'') PNone PNone PNone PNone)
     = PStr ''https://x/iam/v2/api-keys/k-1''"
proof -
  let ?a = "set_href (PStr ''https://x/sa-1'')
              (set_obj_id (PStr ''sa-7'') (ServiceAccount_new accounts_client PNone PNone PNone))"
  let ?k = "ApiKey_new keys_client (PStr ''k-1'') PNone PNone PNone PNone"
  have a: "truthy (priv_href ?a)"
    by (simp add: set_href_def)
  have k: "\<not> truthy (priv_href ?k) \<and> api_path ?k = PStr ''/iam/v2/api-keys''
           \<and> obj_id ?k = PStr ''k-1''"
    by (simp add: ApiKey_new_fields obj_id_def api_keys_path_def api_v2_path_def)
  from a href_explicit_or_derived [of ?a] have "href ?a = priv_href ?a"
    by blast
  moreover from k href_explicit_or_derived [of ?k "''/iam/v2/api-keys''" "''k-1''"]
  have "href ?k = PStr (api_url (priv_client ?k) @ ''/iam/v2/api-keys'' @ ''/'' @ ''k-1'')"
    by blast
  ultimately show ?thesis
    by (simp add: set_href_def ApiKey_new_fields keys_client_def)
qed

text \<open>
  C8. With no link set and the id \<^verbatim>\<open>None\<close>, \<^verbatim>\<open>href\<close> raises nothing: it returns the
  string \<^verbatim>\<open>api_url + api_path + "/None"\<close>, the f-string's rendering of the absent id.
\<close>

theorem href_absent_id_malformed:
  "\<not> truthy (priv_href self) \<Longrightarrow> obj_id self = PNone \<Longrightarrow>
   href self = PStr (api_url (priv_client self) @ py_str (api_path self) @ ''/None'')"
  by (simp add: href_def)

theorem href_absent_id_malformed_witness:
  "href (ServiceAccount_new accounts_client (PStr ''sa-1'') (PStr ''svc-a'') PNone)
     = PStr ''https://x/iam/v2/service-accounts/None''"
proof -
  let ?a = "ServiceAccount_new accounts_client (PStr ''sa-1'') (PStr ''svc-a'') PNone"
  have h: "\<not> truthy (priv_href ?a)"
    by (simp add: ServiceAccount_new_fields)
  have i: "obj_id ?a = PNone"
    by (simp add: ServiceAccount_new_fields obj_id_def)
  show ?thesis
    using href_absent_id_malformed [OF h i]
    by (simp add: ServiceAccount_new_fields accounts_client_def services_accounts_path_def
        api_v2_path_def)
qed

section \<open>Reading, updating and deleting\<close>

text \<open>
  C7. \<^verbatim>\<open>read\<close>, \<^verbatim>\<open>update\<close> and \<^verbatim>\<open>delete\<close> leave the object as it was, every field of it
  (for an \<^verbatim>\<open>ApiKey\<close> the secret too), whatever the transport answers; so a secret that
  \<^verbatim>\<open>ApiKey.create\<close> stored is still there after any \<^verbatim>\<open>read\<close> or \<^verbatim>\<open>update\<close> that follows.
\<close>

theorem read_update_delete_frame:
  "self_after (IamV2Object_read self) = self \<and>
   self_after (IamV2Object_update description self) = self \<and>
   self_after (IamV2Object_delete self) = self \<and>
   priv_secret (self_after (IamV2Object_read
       (self_after (ApiKey_create ow rs n d key)))) =
     priv_secret (self_after (ApiKey_create ow rs n d key)) \<and>
   priv_secret (self_after (IamV2Object_update description
       (self_after (ApiKey_create ow rs n d key)))) =
     priv_secret (self_after (ApiKey_create ow rs n d key))"
  by (simp add: IamV2Object_read_def IamV2Object_update_def IamV2Object_delete_def Let_def)

section \<open>Creating an API key\<close>

text \<open>
  C2. \<^verbatim>\<open>ApiKey.create\<close> with no owner id (neither the argument nor the stored one is
  set), or with no resource id, raises \<^verbatim>\<open>AttributeError\<close> before any request is sent
  and with the object untouched, whatever the other arguments are.
\<close>

theorem ApiKey_create_missing_required:
  assumes "(\<not> truthy ow \<and> \<not> truthy (priv_owner_id self)) \<or>
           (\<not> truthy rs \<and> \<not> truthy (priv_resource_id self))"
  shows "ApiKey_create ow rs n d self =
     \<lparr>outcome = Inl (AttributeError
         (if \<not> truthy ow \<and> \<not> truthy (priv_owner_id self)
          then ''Owner ID must be specified'' else ''Resource ID must be specified'')),
      self_after = self, requests = []\<rparr>"
proof (cases "\<not> truthy ow \<and> \<not> truthy (priv_owner_id self)")
  case True
  then show ?thesis
    unfolding ApiKey_create_def owner_id_def by (simp only: Let_def if_True simp_thms)
next
  case False
  with assms have "\<not> truthy rs \<and> \<not> truthy (priv_resource_id self)"
    by blast
  with False show ?thesis
    unfolding ApiKey_create_def owner_id_def resource_id_def by (simp add: Let_def)
qed

theorem ApiKey_create_missing_required_witness:
  "ApiKey_create PNone (PStr ''lkc-1'') (PStr ''n'') (PStr ''d'')
       (ApiKey_new keys_client PNone PNone PNone PNone (PStr ''lkc-1'')) =
     \<lparr>outcome = Inl (AttributeError ''Owner ID must be specified''),
      self_after = ApiKey_new keys_client PNone PNone PNone PNone (PStr ''lkc-1''),
      requests = []\<rparr> \<and>
   ApiKey_create (PStr ''sa-1'') PNone (PStr ''n'') (PStr ''d'')
       (ApiKey_new keys_client PNone PNone PNone (PStr ''sa-1'') PNone) =
     \<lparr>outcome = Inl (AttributeError ''Resource ID must be specified''),
      self_after = ApiKey_new keys_client PNone PNone PNone (PStr ''sa-1'') PNone,
      requests = []\<rparr>"
proof -
  let ?k1 = "ApiKey_new keys_client PNone PNone PNone PNone (PStr ''lkc-1'')"
  let ?k2 = "ApiKey_new keys_client PNone PNone PNone (PStr ''sa-1'') PNone"
  have h1: "(\<not> truthy PNone \<and> \<not> truthy (priv_owner_id ?k1)) \<or>
            (\<not> truthy (PStr ''lkc-1'') \<and> \<not> truthy (priv_resource_id ?k1))"
    by (simp add: ApiKey_new_fields)
  have h2: "(\<not> truthy (PStr ''sa-1'') \<and> \<not> truthy (priv_owner_id ?k2)) \<or>
            (\<not> truthy PNone \<and> \<not> truthy (priv_resource_id ?k2))"
    by (simp add: ApiKey_new_fields)
  show ?thesis
    using ApiKey_create_missing_required [OF h1, of "PStr ''n''" "PStr ''d''"]
          ApiKey_create_missing_required [OF h2, of "PStr ''n''" "PStr ''d''"]
    by (simp add: ApiKey_new_fields)
qed

text \<open>\<^verbatim>\<open>ApiKey.create\<close> with its intermediate values named.\<close>

lemma ApiKey_create_unfold:
  assumes "owner = (if truthy ow then ow else priv_owner_id self)"
    and "resource = (if truthy rs then rs else priv_resource_id self)"
    and "name = (if \<not> truthy n \<and> \<not> truthy (priv_name self)
                   then PStr (py_str owner @ ''::'' @ py_str resource)
                 else if \<not> truthy n \<and> truthy (priv_name self) then priv_name self
                 else n)"
    and "desc = (if \<not> truthy d \<and> \<not> truthy (priv_description self)
                   then on_value (py_replace_colons name) py_title
                 else if \<not> truthy d \<and> truthy (priv_description self)
                   then Inr (priv_description self)
                 else Inr d)"
    and "url = PStr (api_url (priv_client self) @ py_str (api_path self))"
  shows "ApiKey_create ow rs n d self =
     (if \<not> truthy ow \<and> \<not> truthy (priv_owner_id self) then
        \<lparr>outcome = Inl (AttributeError ''Owner ID must be specified''),
         self_after = self, requests = []\<rparr>
      else if \<not> truthy rs \<and> \<not> truthy (priv_resource_id self) then
        \<lparr>outcome = Inl (AttributeError ''Resource ID must be specified''),
         self_after = self, requests = []\<rparr>
      else
        (case desc of
           Inl e \<Rightarrow> \<lparr>outcome = Inl e, self_after = self, requests = []\<rparr>
         | Inr description \<Rightarrow>
             (case transport (priv_client self)
                     (POST url (ApiKey_payload owner resource name description)) of
                Inl e \<Rightarrow> \<lparr>outcome = Inl e, self_after = self,
                   requests = [POST url (ApiKey_payload owner resource name description)]\<rparr>
              | Inr req \<Rightarrow>
                  (case json req of
                     Inl e \<Rightarrow> \<lparr>outcome = Inl e, self_after = self,
                        requests = [POST url (ApiKey_payload owner resource name description)]\<rparr>
                   | Inr reply_data \<Rightarrow>
                       (case ApiKey_create_adopt reply_data self of
                          (Some e, self') \<Rightarrow> \<lparr>outcome = Inl e, self_after = self',
                             requests =
                               [POST url (ApiKey_payload owner resource name description)]\<rparr>
                        | (None, self') \<Rightarrow> \<lparr>outcome = Inr req, self_after = self',
                             requests =
                               [POST url
                                  (ApiKey_payload owner resource name description)]\<rparr>)))))"
  unfolding ApiKey_create_def owner_id_def resource_id_def assms
  by (simp only: Let_def)



text \<open>What the reply of a successful \<^verbatim>\<open>ApiKey.create\<close> must hold, and what it leaves.\<close>

lemma ApiKey_create_adopt_None:
  assumes "ApiKey_create_adopt body self = (None, self')"
  shows "\<exists>spec i h ow rs s.
     subscript body ''spec'' = Inr spec \<and> subscript body ''id'' = Inr i \<and>
     on_value (subscript body ''metadata'') (\<lambda>m. subscript m ''self'') = Inr h \<and>
     on_value (subscript spec ''owner'') (\<lambda>m. subscript m ''id'') = Inr ow \<and>
     on_value (subscript spec ''resource'') (\<lambda>m. subscript m ''id'') = Inr rs \<and>
     subscript spec ''secret'' = Inr s \<and>
     self' = self\<lparr>priv_id := i, priv_href := h, priv_owner_id := ow,
                   priv_resource_id := rs, priv_secret := s\<rparr>"
  using assms
  by (auto simp: ApiKey_create_adopt_def Let_def set_obj_id_def split: sum.splits)

lemma ApiKey_create_adopt_Some:
  assumes "ApiKey_create_adopt body self = (Some e, self')"
  shows "priv_secret self' = priv_secret self"
  using assms
  by (auto simp: ApiKey_create_adopt_def Let_def set_obj_id_def split: sum.splits)

lemma ApiKey_create_Inr:
  assumes "outcome (ApiKey_create ow rs n d self) = Inr req"
  shows "\<exists>body. json req = Inr body \<and>
     ApiKey_create_adopt body self = (None, self_after (ApiKey_create ow rs n d self))"
proof -
  define owner where "owner = (if truthy ow then ow else priv_owner_id self)"
  define resource where "resource = (if truthy rs then rs else priv_resource_id self)"
  define name where "name = (if \<not> truthy n \<and> \<not> truthy (priv_name self)
                   then PStr (py_str owner @ ''::'' @ py_str resource)
                 else if \<not> truthy n \<and> truthy (priv_name self) then priv_name self
                 else n)"
  define desc where "desc = (if \<not> truthy d \<and> \<not> truthy (priv_description self)
                   then on_value (py_replace_colons name) py_title
                 else if \<not> truthy d \<and> truthy (priv_description self)
                   then Inr (priv_description self)
                 else Inr d)"
  define url where "url = PStr (api_url (priv_client self) @ py_str (api_path self))"
  note u = ApiKey_create_unfold [OF owner_def resource_def name_def desc_def url_def]
  show ?thesis
    using assms unfolding u
    by (auto split: if_splits sum.splits prod.splits option.splits)
qed

lemma ApiKey_create_Inl:
  assumes "outcome (ApiKey_create ow rs n d self) = Inl e"
  shows "priv_secret (self_after (ApiKey_create ow rs n d self)) = priv_secret self"
proof -
  define owner where "owner = (if truthy ow then ow else priv_owner_id self)"
  define resource where "resource = (if truthy rs then rs else priv_resource_id self)"
  define name where "name = (if \<not> truthy n \<and> \<not> truthy (priv_name self)
                   then PStr (py_str owner @ ''::'' @ py_str resource)
                 else if \<not> truthy n \<and> truthy (priv_name self) then priv_name self
                 else n)"
  define desc where "desc = (if \<not> truthy d \<and> \<not> truthy (priv_description self)
                   then on_value (py_replace_colons name) py_title
                 else if \<not> truthy d \<and> truthy (priv_description self)
                   then Inr (priv_description self)
                 else Inr d)"
  define url where "url = PStr (api_url (priv_client self) @ py_str (api_path self))"
  note u = ApiKey_create_unfold [OF owner_def resource_def name_def desc_def url_def]
  show ?thesis
    using assms unfolding u
    by (auto split: if_splits sum.splits prod.splits option.splits
        dest: ApiKey_create_adopt_Some)
qed

text \<open>
  C6. When \<^verbatim>\<open>ApiKey.create\<close> returns, the id and the link it stored are the reply's
  \<^verbatim>\<open>id\<close> and \<^verbatim>\<open>metadata.self\<close>, the owner and resource ids are the reply's
  \<^verbatim>\<open>spec.owner.id\<close> and \<^verbatim>\<open>spec.resource.id\<close> (read from the reply, not from what was
  sent), and the secret is the reply's \<^verbatim>\<open>spec.secret\<close>. Nothing else stores a secret: a
  \<^verbatim>\<open>create\<close> that raises leaves it as it was, so do \<^verbatim>\<open>list\<close>, \<^verbatim>\<open>read\<close>, \<^verbatim>\<open>update\<close>,
  \<^verbatim>\<open>delete\<close> and the two setters, and a new \<^verbatim>\<open>ApiKey\<close> has the secret \<^verbatim>\<open>None\<close>.
\<close>

theorem ApiKey_create_adopts_reply:
  assumes run: "run = ApiKey_create ow rs n d self"
  shows "(outcome run = Inr req \<longrightarrow>
            (\<exists>body spec. json req = Inr body \<and> subscript body ''spec'' = Inr spec \<and>
               subscript body ''id'' = Inr (priv_id (self_after run)) \<and>
               on_value (subscript body ''metadata'') (\<lambda>m. subscript m ''self'')
                 = Inr (priv_href (self_after run)) \<and>
               on_value (subscript spec ''owner'') (\<lambda>m. subscript m ''id'')
                 = Inr (priv_owner_id (self_after run)) \<and>
               on_value (subscript spec ''resource'') (\<lambda>m. subscript m ''id'')
                 = Inr (priv_resource_id (self_after run)) \<and>
               subscript spec ''secret'' = Inr (priv_secret (self_after run)))) \<and>
         (outcome run = Inl e \<longrightarrow> priv_secret (self_after run) = priv_secret self) \<and>
         priv_secret (self_after (IamV2Object_list self)) = priv_secret self \<and>
         priv_secret (self_after (IamV2Object_read self)) = priv_secret self \<and>
         priv_secret (self_after (IamV2Object_update description self)) = priv_secret self \<and>
         priv_secret (self_after (IamV2Object_delete self)) = priv_secret self \<and>
         priv_secret (set_href url self) = priv_secret self \<and>
         priv_secret (set_obj_id id_value self) = priv_secret self \<and>
         priv_secret (ApiKey_new c0 i0 n0 d0 o0 r0) = PNone"
proof -
  have ok: "outcome run = Inr req \<longrightarrow>
            (\<exists>body spec. json req = Inr body \<and> subscript body ''spec'' = Inr spec \<and>
               subscript body ''id'' = Inr (priv_id (self_after run)) \<and>
               on_value (subscript body ''metadata'') (\<lambda>m. subscript m ''self'')
                 = Inr (priv_href (self_after run)) \<and>
               on_value (subscript spec ''owner'') (\<lambda>m. subscript m ''id'')
                 = Inr (priv_owner_id (self_after run)) \<and>
               on_value (subscript spec ''resource'') (\<lambda>m. subscript m ''id'')
                 = Inr (priv_resource_id (self_after run)) \<and>
               subscript spec ''secret'' = Inr (priv_secret (self_after run)))"
  proof
    assume "outcome run = Inr req"
    then obtain body where body: "json req = Inr body"
      and adopt: "ApiKey_create_adopt body self = (None, self_after run)"
      using ApiKey_create_Inr run by blast
    from ApiKey_create_adopt_None [OF adopt] body show
      "\<exists>body spec. json req = Inr body \<and> subscript body ''spec'' = Inr spec \<and>
               subscript body ''id'' = Inr (priv_id (self_after run)) \<and>
               on_value (subscript body ''metadata'') (\<lambda>m. subscript m ''self'')
                 = Inr (priv_href (self_after run)) \<and>
               on_value (subscript spec ''owner'') (\<lambda>m. subscript m ''id'')
                 = Inr (priv_owner_id (self_after run)) \<and>
               on_value (subscript spec ''resource'') (\<lambda>m. subscript m ''id'')
                 = Inr (priv_resource_id (self_after run)) \<and>
               subscript spec ''secret'' = Inr (priv_secret (self_after run))"
      by auto
  qed
  have failed: "outcome run = Inl e \<longrightarrow> priv_secret (self_after run) = priv_secret self"
    using ApiKey_create_Inl run by blast
  have others: "priv_secret (self_after (IamV2Object_list self)) = priv_secret self \<and>
         priv_secret (self_after (IamV2Object_read self)) = priv_secret self \<and>
         priv_secret (self_after (IamV2Object_update description self)) = priv_secret self \<and>
         priv_secret (self_after (IamV2Object_delete self)) = priv_secret self \<and>
         priv_secret (set_href url self) = priv_secret self \<and>
         priv_secret (set_obj_id id_value self) = priv_secret self \<and>
         priv_secret (ApiKey_new c0 i0 n0 d0 o0 r0) = PNone"
    by (simp add: IamV2Object_list_def IamV2Object_read_def IamV2Object_update_def
        IamV2Object_delete_def set_href_def set_obj_id_def ApiKey_new_fields Let_def)
  from ok failed others show ?thesis
    by blast
qed

theorem ApiKey_create_adopts_reply_witness:
  "\<exists>req body spec.
     outcome (ApiKey_create (PStr ''sa-1'') (PStr ''lkc-1'') PNone PNone
                (ApiKey_new keys_client PNone PNone PNone PNone PNone)) = Inr req \<and>
     json req = Inr body \<and> subscript body ''spec'' = Inr spec \<and>
     subscript spec ''secret'' = Inr (priv_secret (self_after
       (ApiKey_create (PStr ''sa-1'') (PStr ''lkc-1'') PNone PNone
          (ApiKey_new keys_client PNone PNone PNone PNone PNone)))) \<and>
     on_value (subscript spec ''owner'') (\<lambda>m. subscript m ''id'') = Inr (PStr ''sa-0001'') \<and>
     priv_owner_id (self_after
       (ApiKey_create (PStr ''sa-1'') (PStr ''lkc-1'') PNone PNone
          (ApiKey_new keys_client PNone PNone PNone PNone PNone))) = PStr ''sa-0001''"
proof -
  let ?k = "ApiKey_new keys_client PNone PNone PNone PNone PNone"
  let ?run = "ApiKey_create (PStr ''sa-1'') (PStr ''lkc-1'') PNone PNone ?k"
  let ?req = "Response (Inr
       (key_entity ''k-1'' ''https://x/k-1'' ''sa-0001'' ''lkc-0001'' ''s3cr3t''))"
  have h: "outcome ?run = Inr ?req"
    by code_simp
  have o: "priv_owner_id (self_after ?run) = PStr ''sa-0001''"
    by code_simp
  from ApiKey_create_adopts_reply [OF refl, of "PStr ''sa-1''" "PStr ''lkc-1''" PNone PNone ?k
      ?req] h
  obtain body spec where "json ?req = Inr body" "subscript body ''spec'' = Inr spec"
    "on_value (subscript spec ''owner'') (\<lambda>m. subscript m ''id'')
       = Inr (priv_owner_id (self_after ?run))"
    "subscript spec ''secret'' = Inr (priv_secret (self_after ?run))"
    by blast
  with h o show ?thesis
    by auto
qed

section \<open>Creating a service account\<close>





section \<open>Importing the API keys of a service account\<close>

lemma import_loop_appends:
  assumes "\<forall>e\<in>set entries. \<exists>i r. subscript e ''id'' = Inr i \<and>
      on_value (on_value (subscript e ''spec'') (\<lambda>s. subscript s ''resource''))
        (\<lambda>r. subscript r ''id'') = Inr r"
  shows "\<exists>ks. import_loop entries self =
             (None, self\<lparr>priv_api_keys := priv_api_keys self @ ks\<rparr>) \<and>
     list_all2 (\<lambda>e k. \<exists>i r. subscript e ''id'' = Inr i \<and>
          on_value (on_value (subscript e ''spec'') (\<lambda>s. subscript s ''resource''))
            (\<lambda>r. subscript r ''id'') = Inr r \<and>
          k = ApiKey_new (priv_client self) i PNone PNone (obj_id self) r) entries ks"
  using assms
proof (induction entries arbitrary: self)
  case Nil
  then show ?case by simp
next
  case (Cons e es)
  from Cons.prems obtain i r where i: "subscript e ''id'' = Inr i"
    and r: "on_value (on_value (subscript e ''spec'') (\<lambda>s. subscript s ''resource''))
        (\<lambda>r. subscript r ''id'') = Inr r"
    by auto
  let ?k = "ApiKey_new (priv_client self) i PNone PNone (obj_id self) r"
  let ?s = "self\<lparr>priv_api_keys := priv_api_keys self @ [?k]\<rparr>"
  from Cons.prems have "\<forall>e\<in>set es. \<exists>i r. subscript e ''id'' = Inr i \<and>
      on_value (on_value (subscript e ''spec'') (\<lambda>s. subscript s ''resource''))
        (\<lambda>r. subscript r ''id'') = Inr r"
    by simp
  from Cons.IH [OF this, of ?s] obtain ks where
    loop: "import_loop es ?s = (None, ?s\<lparr>priv_api_keys := priv_api_keys ?s @ ks\<rparr>)"
    and rel: "list_all2 (\<lambda>e k. \<exists>i r. subscript e ''id'' = Inr i \<and>
          on_value (on_value (subscript e ''spec'') (\<lambda>s. subscript s ''resource''))
            (\<lambda>r. subscript r ''id'') = Inr r \<and>
          k = ApiKey_new (priv_client ?s) i PNone PNone (obj_id ?s) r) es ks"
    by blast
  have step: "import_loop (e # es) self = import_loop es ?s"
    using i r by (simp add: Let_def)
  have same: "priv_client ?s = priv_client self" "obj_id ?s = obj_id self"
    by (simp_all add: obj_id_def)
  have "import_loop (e # es) self =
          (None, self\<lparr>priv_api_keys := priv_api_keys self @ (?k # ks)\<rparr>)"
    using step loop by simp
  moreover have "list_all2 (\<lambda>e k. \<exists>i r. subscript e ''id'' = Inr i \<and>
          on_value (on_value (subscript e ''spec'') (\<lambda>s. subscript s ''resource''))
            (\<lambda>r. subscript r ''id'') = Inr r \<and>
          k = ApiKey_new (priv_client self) i PNone PNone (obj_id self) r) (e # es) (?k # ks)"
    using rel i r unfolding same by auto
  ultimately show ?case
    by blast
qed

text \<open>
  C9. \<^verbatim>\<open>import_api_keys\<close> sends one GET to \<^verbatim>\<open>api_url + "/iam/v2/api-keys?owner=" + id\<close>
  and, when the reply's \<^verbatim>\<open>data\<close> is a list of entries that each hold \<^verbatim>\<open>id\<close> and
  \<^verbatim>\<open>spec.resource.id\<close>, appends one \<^verbatim>\<open>ApiKey\<close> for each entry, in the order of the list:
  its id is the entry's id, its owner id is the id of this account, its resource id is
  the entry's \<^verbatim>\<open>spec.resource.id\<close>, and no link is set on it, so that its \<^verbatim>\<open>href\<close> is the
  one derived from its id.
\<close>

theorem import_api_keys_appends:
  assumes url: "url = PStr (api_url (priv_client self) @ ''/iam/v2/api-keys?owner=''
                            @ py_str (obj_id self))"
    and reply: "transport (priv_client self) (GET url) = Inr resp" "json resp = Inr body"
      "subscript body ''data'' = Inr (PList entries)"
    and shape: "\<forall>e\<in>set entries. \<exists>i r. subscript e ''id'' = Inr i \<and>
      on_value (on_value (subscript e ''spec'') (\<lambda>s. subscript s ''resource''))
        (\<lambda>r. subscript r ''id'') = Inr r"
  shows "\<exists>ks. ServiceAccount_import_api_keys self =
           \<lparr>outcome = Inr PNone,
            self_after = self\<lparr>priv_api_keys := priv_api_keys self @ ks\<rparr>,
            requests = [GET url]\<rparr> \<and>
         list_all2 (\<lambda>e k.
            subscript e ''id'' = Inr (priv_id k) \<and>
            on_value (on_value (subscript e ''spec'') (\<lambda>s. subscript s ''resource''))
              (\<lambda>r. subscript r ''id'') = Inr (priv_resource_id k) \<and>
            priv_owner_id k = obj_id self \<and>
            priv_href k = PNone \<and>
            href k = PStr (api_url (priv_client self) @ ''/iam/v2/api-keys/''
                           @ py_str (priv_id k))) entries ks"
proof -
  from import_loop_appends [OF shape, of self] obtain ks where
    loop: "import_loop entries self = (None, self\<lparr>priv_api_keys := priv_api_keys self @ ks\<rparr>)"
    and rel: "list_all2 (\<lambda>e k. \<exists>i r. subscript e ''id'' = Inr i \<and>
          on_value (on_value (subscript e ''spec'') (\<lambda>s. subscript s ''resource''))
            (\<lambda>r. subscript r ''id'') = Inr r \<and>
          k = ApiKey_new (priv_client self) i PNone PNone (obj_id self) r) entries ks"
    by blast
  have run: "ServiceAccount_import_api_keys self =
           \<lparr>outcome = Inr PNone,
            self_after = self\<lparr>priv_api_keys := priv_api_keys self @ ks\<rparr>,
            requests = [GET url]\<rparr>"
    unfolding ServiceAccount_import_api_keys_def Let_def
    using reply loop
    by (simp add: url on_value_def api_keys_path_def api_v2_path_def)
  have "list_all2 (\<lambda>e k.
            subscript e ''id'' = Inr (priv_id k) \<and>
            on_value (on_value (subscript e ''spec'') (\<lambda>s. subscript s ''resource''))
              (\<lambda>r. subscript r ''id'') = Inr (priv_resource_id k) \<and>
            priv_owner_id k = obj_id self \<and>
            priv_href k = PNone \<and>
            href k = PStr (api_url (priv_client self) @ ''/iam/v2/api-keys/''
                           @ py_str (priv_id k))) entries ks"
    using rel
    by (rule list_all2_mono)
      (auto simp: ApiKey_new_fields href_def obj_id_def api_keys_path_def api_v2_path_def)
  with run show ?thesis
    by blast
qed

theorem import_api_keys_appends_witness:
  "\<exists>ks. priv_api_keys (self_after (ServiceAccount_import_api_keys
       (set_obj_id (PStr ''sa-1'') (ServiceAccount_new keys_client PNone PNone PNone)))) = ks \<and>
     requests (ServiceAccount_import_api_keys
       (set_obj_id (PStr ''sa-1'') (ServiceAccount_new keys_client PNone PNone PNone)))
       = [GET (PStr ''https://x/iam/v2/api-keys?owner=sa-1'')] \<and>
     map priv_id ks = [PStr ''k-1'', PStr ''k-2''] \<and>
     map priv_resource_id ks = [PStr ''lkc-1'', PStr ''lkc-2''] \<and>
     map priv_owner_id ks = [PStr ''sa-1'', PStr ''sa-1''] \<and>
     map href ks = [PStr ''https://x/iam/v2/api-keys/k-1'',
                    PStr ''https://x/iam/v2/api-keys/k-2'']"
proof -
  let ?a = "set_obj_id (PStr ''sa-1'') (ServiceAccount_new keys_client PNone PNone PNone)"
  let ?url = "PStr ''https://x/iam/v2/api-keys?owner=sa-1''"
  let ?body = "PDict [(''data'', PList keys_listing)]"
  have url: "?url = PStr (api_url (priv_client ?a) @ ''/iam/v2/api-keys?owner=''
                          @ py_str (obj_id ?a))"
    by (simp add: set_obj_id_def obj_id_def ServiceAccount_new_fields keys_client_def)
  have reply: "transport (priv_client ?a) (GET ?url) = Inr (Response (Inr ?body))"
    by (simp add: set_obj_id_def ServiceAccount_new_fields keys_client_def)
  have body: "json (Response (Inr ?body)) = Inr ?body"
    by simp
  have data: "subscript ?body ''data'' = Inr (PList keys_listing)"
    by simp
  have shape: "\<forall>e\<in>set keys_listing. \<exists>i r. subscript e ''id'' = Inr i \<and>
      on_value (on_value (subscript e ''spec'') (\<lambda>s. subscript s ''resource''))
        (\<lambda>r. subscript r ''id'') = Inr r"
    by (simp add: keys_listing_def key_entity_def on_value_def)
  from import_api_keys_appends [OF url reply body data shape] obtain ks where
    run: "ServiceAccount_import_api_keys ?a =
           \<lparr>outcome = Inr PNone,
            self_after = ?a\<lparr>priv_api_keys := priv_api_keys ?a @ ks\<rparr>,
            requests = [GET ?url]\<rparr>"
    and rel: "list_all2 (\<lambda>e k.
            subscript e ''id'' = Inr (priv_id k) \<and>
            on_value (on_value (subscript e ''spec'') (\<lambda>s. subscript s ''resource''))
              (\<lambda>r. subscript r ''id'') = Inr (priv_resource_id k) \<and>
            priv_owner_id k = obj_id ?a \<and>
            priv_href k = PNone \<and>
            href k = PStr (api_url (priv_client ?a) @ ''/iam/v2/api-keys/''
                           @ py_str (priv_id k))) keys_listing ks"
    by blast
  from rel have "list_all2 (\<lambda>e k.
            Inr (priv_id k) = subscript e ''id'' \<and>
            Inr (priv_resource_id k) =
              on_value (on_value (subscript e ''spec'') (\<lambda>s. subscript s ''resource''))
                (\<lambda>r. subscript r ''id'') \<and>
            priv_owner_id k = obj_id ?a \<and>
            href k = PStr (api_url (priv_client ?a) @ ''/iam/v2/api-keys/''
                           @ py_str (priv_id k))) keys_listing ks"
    by (rule list_all2_mono) auto
  then have fields: "map priv_id ks = [PStr ''k-1'', PStr ''k-2''] \<and>
     map priv_resource_id ks = [PStr ''lkc-1'', PStr ''lkc-2''] \<and>
     map priv_owner_id ks = [PStr ''sa-1'', PStr ''sa-1''] \<and>
     map href ks = [PStr ''https://x/iam/v2/api-keys/k-1'',
                    PStr ''https://x/iam/v2/api-keys/k-2'']"
    by (auto simp: keys_listing_def key_entity_def on_value_def list_all2_Cons1
        set_obj_id_def obj_id_def ServiceAccount_new_fields keys_client_def)
  have "priv_api_keys ?a = []"
    by (simp add: set_obj_id_def ServiceAccount_new_fields)
  then have keys: "priv_api_keys (self_after (ServiceAccount_import_api_keys ?a)) = ks"
    unfolding run by simp
  have sent: "requests (ServiceAccount_import_api_keys ?a) = [GET ?url]"
    unfolding run by simp
  from keys sent fields show ?thesis
    by (intro exI [of _ ks] conjI) (elim conjE, assumption)+
qed

section \<open>Looking a service account up\<close>

lemma py_eq_PStr: "py_eq v (PStr s) = (v = PStr s)"
  by (cases v) auto

lemma adopt_account_entity:
  assumes "is_account_entity a"
  shows "\<exists>h i d n.
     on_value (subscript a ''metadata'') (\<lambda>m. subscript m ''self'') = Inr h \<and>
     subscript a ''id'' = Inr i \<and> subscript a ''description'' = Inr d \<and>
     subscript a ''display_name'' = Inr n \<and>
     (\<forall>self. adopt_account a self =
        (None, self\<lparr>priv_href := h, priv_id := i, priv_description := d, priv_name := n\<rparr>))"
proof -
  from assms obtain h i d n where
    h: "on_value (subscript a ''metadata'') (\<lambda>m. subscript m ''self'') = Inr h"
    and i: "subscript a ''id'' = Inr i"
    and d: "subscript a ''description'' = Inr d"
    and n: "subscript a ''display_name'' = Inr n"
    unfolding is_account_entity_def
    by (metis sum.collapse(2))
  have "adopt_account a self =
        (None, self\<lparr>priv_href := h, priv_id := i, priv_description := d, priv_name := n\<rparr>)"
    for self
    unfolding adopt_account_def Let_def
    by (simp add: h i d n set_obj_id_def)
  with h i d n show ?thesis
    by blast
qed

lemma adopt_account_overwrites:
  assumes "is_account_entity a" "is_account_entity b"
  shows "snd (adopt_account b (snd (adopt_account a self))) = snd (adopt_account b self)"
proof -
  from adopt_account_entity [OF assms(1)] obtain h i d n where
    a: "\<And>s. adopt_account a s =
        (None, s\<lparr>priv_href := h, priv_id := i, priv_description := d, priv_name := n\<rparr>)"
    by blast
  from adopt_account_entity [OF assms(2)] obtain h' i' d' n' where
    b: "\<And>s. adopt_account b s =
        (None, s\<lparr>priv_href := h', priv_id := i', priv_description := d', priv_name := n'\<rparr>)"
    by blast
  show ?thesis
    by (simp add: a b)
qed

lemma scan_accounts_last:
  assumes "\<forall>a\<in>set accounts. is_account_entity a"
  shows "scan_accounts (PStr dn) accounts self =
     (None, if filter (named dn) accounts = [] then self
            else snd (adopt_account (last (filter (named dn) accounts)) self))"
  using assms
proof (induction accounts arbitrary: self)
  case Nil
  then show ?case by simp
next
  case (Cons a rest)
  from Cons.prems have ea: "is_account_entity a"
    and er: "\<forall>b\<in>set rest. is_account_entity b"
    by simp_all
  from adopt_account_entity [OF ea] obtain h i d n where
    n: "subscript a ''display_name'' = Inr n"
    and adopt: "\<And>s. adopt_account a s =
        (None, s\<lparr>priv_href := h, priv_id := i, priv_description := d, priv_name := n\<rparr>)"
    by blast
  show ?case
  proof (cases "named dn a")
    case True
    then have m: "py_eq n (PStr dn)"
      using n by (simp add: named_def py_eq_PStr)
    let ?s = "snd (adopt_account a self)"
    have step: "scan_accounts (PStr dn) (a # rest) self = scan_accounts (PStr dn) rest ?s"
      using n m by (simp add: adopt)
    show ?thesis
    proof (cases "filter (named dn) rest = []")
      case True
      with step Cons.IH [OF er, of ?s] \<open>named dn a\<close> show ?thesis
        by simp
    next
      case False
      then have "last (filter (named dn) rest) \<in> set rest"
        using last_in_set [OF False] by auto
      with er have "is_account_entity (last (filter (named dn) rest))"
        by blast
      from adopt_account_overwrites [OF ea this, of self]
        step Cons.IH [OF er, of ?s] False \<open>named dn a\<close>
      show ?thesis
        by simp
    qed
  next
    case False
    then have m: "\<not> py_eq n (PStr dn)"
      using n by (simp add: named_def py_eq_PStr)
    have "scan_accounts (PStr dn) (a # rest) self = scan_accounts (PStr dn) rest self"
      using n m by simp
    with Cons.IH [OF er, of self] False show ?thesis
      by simp
  qed
qed

lemma set_from_read_listing:
  assumes no_id: "\<not> truthy account_id" "\<not> truthy (obj_id self)"
    and name: "resolve display_name (priv_name self) PNone = PStr dn" "dn \<noteq> []"
    and path: "truthy (api_path self)"
    and url: "url = PStr (api_url (priv_client self) @ py_str (api_path self))"
    and reply: "transport (priv_client self) (GET url) = Inr resp" "json resp = Inr body"
      "subscript body ''data'' = Inr (PList accounts)"
    and shape: "\<forall>a\<in>set accounts. is_account_entity a"
  shows "ServiceAccount_set_from_read display_name account_id self =
     \<lparr>outcome = Inr PNone,
      self_after = (if filter (named dn) accounts = [] then self
            else snd (adopt_account (last (filter (named dn) accounts)) self)),
      requests = [GET url]\<rparr>"
proof -
  have dn: "(if truthy display_name then display_name else priv_name self) = PStr dn"
    using name by (auto simp: resolve_def split: if_splits)
  have id: "(if truthy account_id then account_id else obj_id self) = obj_id self"
    using no_id by simp
  have listing: "IamV2Object_list self =
      \<lparr>outcome = Inr (Some resp), self_after = self, requests = [GET url]\<rparr>"
    using path reply(1) by (simp add: IamV2Object_list_def Let_def url)
  show ?thesis
    unfolding ServiceAccount_set_from_read_def Let_def dn id listing
    using no_id name(2) reply(2,3)
    by (simp add: on_value_def scan_accounts_last [OF shape])
qed

lemma set_from_read_nothing:
  assumes "\<not> truthy account_id" "\<not> truthy (obj_id self)"
    "\<not> truthy display_name" "\<not> truthy (priv_name self)"
  shows "ServiceAccount_set_from_read display_name account_id self =
     \<lparr>outcome = Inr PNone, self_after = self, requests = []\<rparr>"
  using assms by (simp add: ServiceAccount_set_from_read_def Let_def)

text \<open>
  C1. \<^verbatim>\<open>set_from_read\<close> with no account id to be had (neither the argument nor the
  stored id is set) and a display name \<open>dn\<close> sends one GET to the collection URL and goes
  through the whole listing; every entry whose display name is exactly \<open>dn\<close> overwrites
  the link, id, description and name of the object, so that after the call these are the
  fields of the last such entry, and the object is unchanged when no entry has that name.
  With neither an id nor a display name the call sends nothing and changes nothing.
\<close>

theorem set_from_read_by_name:
  assumes no_id: "\<not> truthy account_id" "\<not> truthy (obj_id self)"
    and run: "run = ServiceAccount_set_from_read display_name account_id self"
    and url: "url = PStr (api_url (priv_client self) @ py_str (api_path self))"
  shows "(resolve display_name (priv_name self) PNone = PStr dn \<and> dn \<noteq> [] \<and>
          truthy (api_path self) \<and>
          transport (priv_client self) (GET url) = Inr resp \<and> json resp = Inr body \<and>
          subscript body ''data'' = Inr (PList accounts) \<and>
          (\<forall>a\<in>set accounts. is_account_entity a) \<longrightarrow>
            requests run = [GET url] \<and> outcome run = Inr PNone \<and>
            (filter (named dn) accounts = [] \<longrightarrow> self_after run = self) \<and>
            (filter (named dn) accounts \<noteq> [] \<longrightarrow>
               (\<exists>h i d.
                  on_value (subscript (last (filter (named dn) accounts)) ''metadata'')
                    (\<lambda>m. subscript m ''self'') = Inr h \<and>
                  subscript (last (filter (named dn) accounts)) ''id'' = Inr i \<and>
                  subscript (last (filter (named dn) accounts)) ''description'' = Inr d \<and>
                  self_after run =
                    self\<lparr>priv_href := h, priv_id := i, priv_description := d,
                         priv_name := PStr dn\<rparr>))) \<and>
         (\<not> truthy display_name \<and> \<not> truthy (priv_name self) \<longrightarrow>
            run = \<lparr>outcome = Inr PNone, self_after = self, requests = []\<rparr>)"
proof (intro conjI impI)
  assume "\<not> truthy display_name \<and> \<not> truthy (priv_name self)"
  with no_id run show "run = \<lparr>outcome = Inr PNone, self_after = self, requests = []\<rparr>"
    by (simp add: set_from_read_nothing)
next
  assume h: "resolve display_name (priv_name self) PNone = PStr dn \<and> dn \<noteq> [] \<and>
          truthy (api_path self) \<and>
          transport (priv_client self) (GET url) = Inr resp \<and> json resp = Inr body \<and>
          subscript body ''data'' = Inr (PList accounts) \<and>
          (\<forall>a\<in>set accounts. is_account_entity a)"
  then have shape: "\<forall>a\<in>set accounts. is_account_entity a"
    by blast
  from h have r: "run =
     \<lparr>outcome = Inr PNone,
      self_after = (if filter (named dn) accounts = [] then self
            else snd (adopt_account (last (filter (named dn) accounts)) self)),
      requests = [GET url]\<rparr>"
    unfolding run
    by (intro set_from_read_listing [OF no_id _ _ _ url]) blast+
  show "requests run = [GET url]"
    by (simp add: r)
  show "outcome run = Inr PNone"
    by (simp add: r)
  {
    assume "filter (named dn) accounts = []"
    then show "self_after run = self"
      by (simp add: r)
  }
  {
    assume ne: "filter (named dn) accounts \<noteq> []"
    let ?b = "last (filter (named dn) accounts)"
    from last_in_set [OF ne] have b: "?b \<in> set accounts" and nb: "named dn ?b"
      by auto
    from b shape have "is_account_entity ?b"
      by blast
    from adopt_account_entity [OF this] obtain h i d n where
      f: "on_value (subscript ?b ''metadata'') (\<lambda>m. subscript m ''self'') = Inr h"
        "subscript ?b ''id'' = Inr i" "subscript ?b ''description'' = Inr d"
        "subscript ?b ''display_name'' = Inr n"
      and a: "adopt_account ?b self =
        (None, self\<lparr>priv_href := h, priv_id := i, priv_description := d, priv_name := n\<rparr>)"
      by blast
    from nb f(4) have "n = PStr dn"
      by (simp add: named_def)
    with a ne have "self_after run =
        self\<lparr>priv_href := h, priv_id := i, priv_description := d, priv_name := PStr dn\<rparr>"
      by (simp add: r)
    with f show "\<exists>h i d.
                  on_value (subscript (last (filter (named dn) accounts)) ''metadata'')
                    (\<lambda>m. subscript m ''self'') = Inr h \<and>
                  subscript (last (filter (named dn) accounts)) ''id'' = Inr i \<and>
                  subscript (last (filter (named dn) accounts)) ''description'' = Inr d \<and>
                  self_after run =
                    self\<lparr>priv_href := h, priv_id := i, priv_description := d,
                         priv_name := PStr dn\<rparr>"
      by blast
  }
qed

text \<open>
  The listing of \<open>accounts_client\<close> has two entries named \<^verbatim>\<open>svc-a\<close>: the first one has
  the id \<^verbatim>\<open>sa-1\<close>, and the object ends with the id \<^verbatim>\<open>sa-2\<close> of the second.
\<close>

theorem set_from_read_first_match_counterexample:
  "subscript (hd (filter (named ''svc-a'') accounts_listing)) ''id'' = Inr (PStr ''sa-1'') \<and>
   priv_id (self_after (ServiceAccount_set_from_read (PStr ''svc-a'') PNone
      (ServiceAccount_new accounts_client PNone PNone PNone))) = PStr ''sa-2'' \<and>
   priv_description (self_after (ServiceAccount_set_from_read (PStr ''svc-a'') PNone
      (ServiceAccount_new accounts_client PNone PNone PNone))) = PStr ''second''"
  by code_simp

theorem set_from_read_by_name_witness:
  "self_after (ServiceAccount_set_from_read (PStr ''svc-a'') PNone
      (ServiceAccount_new accounts_client PNone PNone PNone)) =
     (ServiceAccount_new accounts_client PNone PNone PNone)
       \<lparr>priv_href := PStr ''https://x/sa-2'', priv_id := PStr ''sa-2'',
        priv_description := PStr ''second'', priv_name := PStr ''svc-a''\<rparr> \<and>
   requests (ServiceAccount_set_from_read (PStr ''svc-a'') PNone
      (ServiceAccount_new accounts_client PNone PNone PNone)) =
     [GET (PStr ''https://x/iam/v2/service-accounts'')] \<and>
   ServiceAccount_set_from_read PNone PNone
      (ServiceAccount_new accounts_client PNone PNone PNone) =
     \<lparr>outcome = Inr PNone,
      self_after = ServiceAccount_new accounts_client PNone PNone PNone, requests = []\<rparr>"
proof -
  let ?a = "ServiceAccount_new accounts_client PNone PNone PNone"
  let ?url = "PStr ''https://x/iam/v2/service-accounts''"
  let ?body = "PDict [(''data'', PList accounts_listing)]"
  let ?last = "account_entity ''sa-2'' ''svc-a'' ''second'' ''https://x/sa-2''"
  have no_id: "\<not> truthy PNone" "\<not> truthy (obj_id ?a)"
    by (simp_all add: obj_id_def ServiceAccount_new_fields)
  have url: "?url = PStr (api_url (priv_client ?a) @ py_str (api_path ?a))"
    by (simp add: ServiceAccount_new_fields accounts_client_def services_accounts_path_def
        api_v2_path_def)
  have hyps: "resolve (PStr ''svc-a'') (priv_name ?a) PNone = PStr ''svc-a'' \<and> ''svc-a'' \<noteq> [] \<and>
          truthy (api_path ?a) \<and>
          transport (priv_client ?a) (GET ?url) = Inr (Response (Inr ?body)) \<and>
          json (Response (Inr ?body)) = Inr ?body \<and>
          subscript ?body ''data'' = Inr (PList accounts_listing) \<and>
          (\<forall>a\<in>set accounts_listing. is_account_entity a)"
    by (simp add: resolve_def ServiceAccount_new_fields accounts_client_def
        services_accounts_path_def api_v2_path_def accounts_listing_def account_entity_def
        is_account_entity_def on_value_def)
  have matches: "filter (named ''svc-a'') accounts_listing \<noteq> []"
    and last: "last (filter (named ''svc-a'') accounts_listing) = ?last"
    by (simp_all add: accounts_listing_def account_entity_def named_def)
  from set_from_read_by_name [OF no_id refl url, of "PStr ''svc-a''" "''svc-a''"
      "Response (Inr ?body)" ?body accounts_listing] hyps matches
  obtain h i d where
    f: "on_value (subscript (last (filter (named ''svc-a'') accounts_listing)) ''metadata'')
          (\<lambda>m. subscript m ''self'') = Inr h"
       "subscript (last (filter (named ''svc-a'') accounts_listing)) ''id'' = Inr i"
       "subscript (last (filter (named ''svc-a'') accounts_listing)) ''description'' = Inr d"
    and after: "self_after (ServiceAccount_set_from_read (PStr ''svc-a'') PNone ?a) =
       ?a\<lparr>priv_href := h, priv_id := i, priv_description := d, priv_name := PStr ''svc-a''\<rparr>"
    and sent: "requests (ServiceAccount_set_from_read (PStr ''svc-a'') PNone ?a) = [GET ?url]"
    by blast
  from f have "h = PStr ''https://x/sa-2''" "i = PStr ''sa-2''" "d = PStr ''second''"
    unfolding last by (simp_all add: account_entity_def on_value_def)
  with after have first: "self_after (ServiceAccount_set_from_read (PStr ''svc-a'') PNone ?a) =
       ?a\<lparr>priv_href := PStr ''https://x/sa-2'', priv_id := PStr ''sa-2'',
          priv_description := PStr ''second'', priv_name := PStr ''svc-a''\<rparr>"
    by simp
  have none: "\<not> truthy PNone \<and> \<not> truthy (priv_name ?a)"
    by (simp add: ServiceAccount_new_fields)
  from set_from_read_by_name [OF no_id refl url, of PNone] none
  have second: "ServiceAccount_set_from_read PNone PNone ?a =
     \<lparr>outcome = Inr PNone, self_after = ?a, requests = []\<rparr>"
    by blast
  from first sent second show ?thesis
    by (intro conjI)
qed

end
